theory Spec2Isabelle
  imports Main
begin

chapter \<open>The program\<close>

section \<open>Python values and sequence operations used by the converters\<close>

text \<open>
  Exceptions of the source are values: a function that can raise returns
  \<open>py_error + 'a\<close>, with \<open>Inl\<close> the exception that escapes it.
\<close>

datatype py_error = IndexError | ValueError | TypeError

text \<open>
  Python's \<open>xs[a:b]\<close> for integer bounds: a negative bound counts from the end, and
  both bounds are clamped to the list, so a slice never raises.
\<close>

definition slice_bound :: "nat \<Rightarrow> int \<Rightarrow> nat" where
  "slice_bound n i = (if i < 0 then nat (max 0 (int n + i)) else min n (nat i))"

definition py_slice :: "'a list \<Rightarrow> int \<Rightarrow> int \<Rightarrow> 'a list" where
  "py_slice xs a b =
     (let lo = slice_bound (length xs) a; hi = slice_bound (length xs) b
      in take (hi - lo) (drop lo xs))"

text \<open>Python's \<open>xs[i]\<close> for an index that is never negative in this code.\<close>

definition py_getitem :: "'a list \<Rightarrow> nat \<Rightarrow> py_error + 'a" where
  "py_getitem xs i = (if i < length xs then Inr (xs ! i) else Inl IndexError)"

section \<open>Shapes of the tabular vector format (shp2dxf.py)\<close>

text \<open>
  A shape as the reader hands it over: its kind, the flat point list, and the array of
  part start indices, which point shapes do not have (\<open>getattr(shape, "parts", [0])\<close>).
\<close>

record 'p shape =
  shapeType :: int
  points :: "'p list"
  parts :: "int list option"

definition POINT :: int where "POINT = 1"
definition POLYLINE :: int where "POLYLINE = 3"
definition POLYGON :: int where "POLYGON = 5"

text \<open>
  \<open>_split_parts\<close>: the generator is the list of the parts it yields, in order. The index
  \<open>i + 1\<close> is always inside \<open>idxs\<close>, which is one longer than \<open>parts\<close>.
\<close>

definition shape_parts :: "'p shape \<Rightarrow> int list" where
  "shape_parts sh = (case parts sh of None \<Rightarrow> [0] | Some l \<Rightarrow> l)"

definition split_parts :: "'p shape \<Rightarrow> 'p list list" where
  "split_parts sh =
     (let pts = points sh;
          ps = shape_parts sh;
          idxs = ps @ [int (length pts)]
      in map (\<lambda>i. py_slice pts (idxs ! i) (idxs ! (i + 1))) [0..<length ps])"

text \<open>
  The hypothesis of the splitting property as it is worded: the start indices are
  ascending and each one points into the point list (or at its end, for an empty last
  part).
\<close>

definition ascending_starts :: "'p list \<Rightarrow> int list \<Rightarrow> bool" where
  "ascending_starts pts ps = (sorted ps \<and> list_all (\<lambda>p. 0 \<le> p \<and> p \<le> int (length pts)) ps)"

text \<open>The end of part \<open>i\<close>: the next start index, or the end of the point list.\<close>

definition part_end :: "'p list \<Rightarrow> int list \<Rightarrow> nat \<Rightarrow> int" where
  "part_end pts ps i = (if i + 1 < length ps then ps ! (i + 1) else int (length pts))"

text \<open>
  The contiguous slices of \<open>xs\<close> between consecutive cut positions, the last one running
  to the end of \<open>xs\<close>: what the splitting property compares \<open>split_parts\<close> with.
\<close>

fun cuts :: "'a list \<Rightarrow> nat list \<Rightarrow> 'a list list" where
  "cuts xs [] = []"
| "cuts xs [a] = [drop a xs]"
| "cuts xs (a # b # ps) = take (b - a) (drop a xs) # cuts xs (b # ps)"

section \<open>Python strings\<close>

text \<open>
  A string is a list of characters, each a code point below 256 (Latin-1), so that
  lengths and indices count what Python's \<open>str\<close> counts. Text with code points beyond
  that range is outside this model.
\<close>

text \<open>\<open>str.isspace\<close> on one character: the code points Python treats as whitespace.\<close>

definition py_isspace :: "char \<Rightarrow> bool" where
  "py_isspace c = (c \<in> set [CHR 0x09, CHR 0x0A, CHR 0x0B, CHR 0x0C, CHR 0x0D, CHR 0x1C,
                             CHR 0x1D, CHR 0x1E, CHR 0x1F, CHR 0x20, CHR 0x85, CHR 0xA0])"

text \<open>\<open>s.strip()\<close>: leading and trailing whitespace removed.\<close>

definition py_strip :: "string \<Rightarrow> string" where
  "py_strip s = rev (dropWhile py_isspace (rev (dropWhile py_isspace s)))"

text \<open>
  \<open>s.lower()\<close> and \<open>s.upper()\<close>, character by character. The three Latin-1 letters
  whose upper case lies outside Latin-1 or is two letters long (\<open>0xB5\<close>, \<open>0xDF\<close>,
  \<open>0xFF\<close>) are left as they are by \<open>py_upper\<close>: neither they nor their upper-case
  forms occur in any text this program compares with.
\<close>

definition upper_chars :: string where
  "upper_chars = ''ABCDEFGHIJKLMNOPQRSTUVWXYZ'' @
     [CHR 0xC0, CHR 0xC1, CHR 0xC2, CHR 0xC3, CHR 0xC4, CHR 0xC5, CHR 0xC6, CHR 0xC7,
      CHR 0xC8, CHR 0xC9, CHR 0xCA, CHR 0xCB, CHR 0xCC, CHR 0xCD, CHR 0xCE, CHR 0xCF,
      CHR 0xD0, CHR 0xD1, CHR 0xD2, CHR 0xD3, CHR 0xD4, CHR 0xD5, CHR 0xD6,
      CHR 0xD8, CHR 0xD9, CHR 0xDA, CHR 0xDB, CHR 0xDC, CHR 0xDD, CHR 0xDE]"

definition lower_chars :: string where
  "lower_chars = ''abcdefghijklmnopqrstuvwxyz'' @
     [CHR 0xE0, CHR 0xE1, CHR 0xE2, CHR 0xE3, CHR 0xE4, CHR 0xE5, CHR 0xE6, CHR 0xE7,
      CHR 0xE8, CHR 0xE9, CHR 0xEA, CHR 0xEB, CHR 0xEC, CHR 0xED, CHR 0xEE, CHR 0xEF,
      CHR 0xF0, CHR 0xF1, CHR 0xF2, CHR 0xF3, CHR 0xF4, CHR 0xF5, CHR 0xF6,
      CHR 0xF8, CHR 0xF9, CHR 0xFA, CHR 0xFB, CHR 0xFC, CHR 0xFD, CHR 0xFE]"

definition lower_char :: "char \<Rightarrow> char" where
  "lower_char c = (case map_of (zip upper_chars lower_chars) c of Some d \<Rightarrow> d | None \<Rightarrow> c)"

definition upper_char :: "char \<Rightarrow> char" where
  "upper_char c = (case map_of (zip lower_chars upper_chars) c of Some d \<Rightarrow> d | None \<Rightarrow> c)"

definition py_lower :: "string \<Rightarrow> string" where
  "py_lower s = map lower_char s"

definition py_upper :: "string \<Rightarrow> string" where
  "py_upper s = map upper_char s"

text \<open>\<open>s.startswith(p)\<close> and \<open>s.endswith(p)\<close>.\<close>

definition startswith :: "string \<Rightarrow> string \<Rightarrow> bool" where
  "startswith s p = (take (length p) s = p)"

definition endswith :: "string \<Rightarrow> string \<Rightarrow> bool" where
  "endswith s p = (length p \<le> length s \<and> drop (length s - length p) s = p)"

text \<open>\<open>s.split(sep)\<close> for a one-character separator: always at least one piece.\<close>

fun split_on :: "char \<Rightarrow> string \<Rightarrow> string list" where
  "split_on sep [] = [[]]"
| "split_on sep (c # cs) =
     (if c = sep then [] # split_on sep cs
      else (case split_on sep cs of p # ps \<Rightarrow> (c # p) # ps | [] \<Rightarrow> [[c]]))"

text \<open>\<open>s.replace(c, "")\<close> for a one-character \<open>c\<close>.\<close>

definition remove_char :: "char \<Rightarrow> string \<Rightarrow> string" where
  "remove_char c s = filter (\<lambda>d. d \<noteq> c) s"

section \<open>Python integers and their text\<close>

definition is_digit :: "char \<Rightarrow> bool" where
  "is_digit c = (c \<in> set ''0123456789'')"

definition digit_val :: "char \<Rightarrow> int" where
  "digit_val c = int (of_char c) - 48"

definition digit_char :: "nat \<Rightarrow> char" where
  "digit_char d = ''0123456789'' ! d"

text \<open>
  The digits part of a decimal literal accepted by \<open>int(s)\<close>: decimal digits, with
  single underscores allowed between digits only.
\<close>

fun well_grouped :: "string \<Rightarrow> bool" where
  "well_grouped [] = False"
| "well_grouped [c] = is_digit c"
| "well_grouped (c # d # cs) =
     (is_digit c \<and> (if d = CHR ''_'' then well_grouped cs else well_grouped (d # cs)))"

definition digits_value :: "string \<Rightarrow> int" where
  "digits_value ds = foldl (\<lambda>a c. 10 * a + digit_val c) 0 ds"

text \<open>
  The whitespace that \<open>int(s)\<close> skips around a literal. It is not that of
  \<open>str.strip\<close>: of the characters below 128 only tab, line feed, vertical tab, form
  feed, carriage return and space are skipped, so the separators \<open>0x1C\<close> to \<open>0x1F\<close>
  make \<open>int\<close> raise; the two whitespace characters above 127 are skipped.
\<close>

definition int_isspace :: "char \<Rightarrow> bool" where
  "int_isspace c = (c \<in> set [CHR 0x09, CHR 0x0A, CHR 0x0B, CHR 0x0C, CHR 0x0D, CHR 0x20,
                              CHR 0x85, CHR 0xA0])"

definition int_strip :: "string \<Rightarrow> string" where
  "int_strip s = rev (dropWhile int_isspace (rev (dropWhile int_isspace s)))"

text \<open>
  \<open>int(s)\<close> for a string: surrounding whitespace is dropped, one sign is allowed, and
  anything else than a well-formed decimal literal raises \<open>ValueError\<close> (\<open>None\<close> here).
\<close>

definition int_of_str :: "string \<Rightarrow> int option" where
  "int_of_str s =
     (let t = int_strip s;
          neg = startswith t ''-'';
          body = (if startswith t ''-'' \<or> startswith t ''+'' then tl t else t)
      in if well_grouped body
         then Some ((if neg then - 1 else 1) * digits_value (remove_char (CHR ''_'') body))
         else None)"

text \<open>\<open>str(n)\<close>, which is also what an f-string writes for an integer.\<close>

fun str_nat :: "nat \<Rightarrow> string" where
  "str_nat n = (if n < 10 then [digit_char n] else str_nat (n div 10) @ [digit_char (n mod 10)])"

declare str_nat.simps [simp del]

definition str_int :: "int \<Rightarrow> string" where
  "str_int i = (if i < 0 then CHR ''-'' # str_nat (nat (- i)) else str_nat (nat i))"

text \<open>
  \<open>int(s, 16)\<close> at its two call sites, where \<open>s\<close> has been checked to consist of
  hexadecimal digits only, so that no sign, prefix or underscore can occur.
\<close>

definition is_hex :: "char \<Rightarrow> bool" where
  "is_hex c = (c \<in> set ''0123456789aAbBcCdDeEfF'')"

definition hex_val :: "char \<Rightarrow> int" where
  "hex_val c = (case map_of (zip ''0123456789abcdefABCDEF''
                    [0, 1, 2, 3, 4, 5, 6, 7, 8, 9, 10, 11, 12, 13, 14, 15, 10, 11, 12, 13, 14, 15]) c
                of Some v \<Rightarrow> v | None \<Rightarrow> 0)"

definition hex_value :: "string \<Rightarrow> int" where
  "hex_value ds = foldl (\<lambda>a c. 16 * a + hex_val c) 0 ds"

section \<open>Colours\<close>

text \<open>A resolved colour: the three channels \<open>(R, G, B)\<close>.\<close>

type_synonym rgb = "int \<times> int \<times> int"

definition in_byte :: "int \<Rightarrow> bool" where
  "in_byte v = (0 \<le> v \<and> v \<le> 255)"

text \<open>
  Modelled from the spec: the indexed-colour lookup \<open>ezcolors.aci2rgb\<close> belongs to the
  drawing library, which is not among the sources. The specification describes it as
  the standard table of 255 entries for the indices 1 to 255; the entries themselves
  are the parameter \<open>tbl\<close>, and an index outside the table raises \<open>IndexError\<close>.
\<close>

definition aci2rgb :: "(int \<Rightarrow> rgb) \<Rightarrow> int \<Rightarrow> py_error + rgb" where
  "aci2rgb tbl i = (if 1 \<le> i \<and> i \<le> 255 then Inr (tbl i) else Inl IndexError)"

section \<open>Decoding the colour of an attribute record (shp2dxf.py)\<close>

text \<open>
  A value of an attribute record, as the data model of the specification has it: a
  string, an integer, or unset (\<open>None\<close>).
\<close>

datatype pyval = VStr string | VInt int | VNone

text \<open>\<open>int(v)\<close>: the value of an integer, the parsed text of a string.\<close>

fun py_int :: "pyval \<Rightarrow> py_error + int" where
  "py_int (VInt i) = Inr i"
| "py_int (VStr s) = (case int_of_str s of Some i \<Rightarrow> Inr i | None \<Rightarrow> Inl ValueError)"
| "py_int VNone = Inl TypeError"

text \<open>
  \<open>name_to_idx = {n: i for i, n in enumerate(field_names_lower)}\<close>: a later field of
  the same name replaces an earlier one.
\<close>

definition name_to_idx :: "string list \<Rightarrow> string \<rightharpoonup> nat" where
  "name_to_idx names = fold (\<lambda>(i, n) m. m(n \<mapsto> i)) (enumerate 0 names) Map.empty"

text \<open>
  The inner function \<open>get_val\<close>: the value of the first candidate name that is a field,
  \<open>None\<close> when none is. \<open>rec[idx]\<close> raises when the record is shorter than its fields.
\<close>

fun get_val :: "pyval list \<Rightarrow> (string \<rightharpoonup> nat) \<Rightarrow> string list \<Rightarrow> py_error + pyval" where
  "get_val rec m [] = Inr VNone"
| "get_val rec m (c # cs) =
     (case m (py_lower c) of Some idx \<Rightarrow> py_getitem rec idx | None \<Rightarrow> get_val rec m cs)"

text \<open>
  \<open>R, G, B = int(p0), int(p1), int(p2)\<close> followed by the range test, inside
  \<open>try ... except Exception: pass\<close>: a failed conversion or a channel out of range
  gives no colour.
\<close>

definition channels :: "pyval \<Rightarrow> pyval \<Rightarrow> pyval \<Rightarrow> rgb option" where
  "channels p0 p1 p2 =
     (case py_int p0 of Inl _ \<Rightarrow> None | Inr R \<Rightarrow>
      case py_int p1 of Inl _ \<Rightarrow> None | Inr G \<Rightarrow>
      case py_int p2 of Inl _ \<Rightarrow> None | Inr B \<Rightarrow>
      if in_byte R \<and> in_byte G \<and> in_byte B then Some (R, G, B) else None)"

definition channels_of_parts :: "string list \<Rightarrow> rgb option" where
  "channels_of_parts ps =
     (if length ps = 3 then channels (VStr (ps ! 0)) (VStr (ps ! 1)) (VStr (ps ! 2)) else None)"

text \<open>Step 1 on a string value: the text \<open>rgb(R,G,B)\<close> (lines 46 to 54).\<close>

definition parse_rgb_text :: "string \<Rightarrow> rgb option" where
  "parse_rgb_text val =
     (if startswith (py_lower val) ''rgb('' \<and> endswith val '')''
      then channels_of_parts (split_on (CHR '','') (py_slice val 4 (- 1)))
      else None)"

text \<open>Steps 3 and 4 on a string value: hexadecimal, then comma-separated (lines 80 to 100).\<close>

definition parse_color_string :: "string \<Rightarrow> rgb option" where
  "parse_color_string color_val =
     (let s = py_strip color_val;
          s = (if startswith s ''#'' then py_slice s 1 (int (length s)) else s)
      in if length s = 6 \<and> list_all is_hex s
         then Some (hex_value (py_slice s 0 2), hex_value (py_slice s 2 4),
                    hex_value (py_slice s 4 6))
         else channels_of_parts
                (map py_strip (split_on (CHR '','')
                   (remove_char (CHR '')'') (remove_char (CHR ''('') s)))))"

text \<open>Step 5 on a value that is not \<open>None\<close> (lines 104 to 111).\<close>

definition parse_aci :: "(int \<Rightarrow> rgb) \<Rightarrow> pyval \<Rightarrow> rgb option" where
  "parse_aci tbl aci_val =
     (case py_int aci_val of Inl _ \<Rightarrow> None | Inr aci \<Rightarrow>
      if aci \<noteq> 0 \<and> aci \<noteq> 256
      then (case aci2rgb tbl aci of Inl _ \<Rightarrow> None | Inr c \<Rightarrow> Some c)
      else None)"

text \<open>
  \<open>_parse_rgb_from_record\<close>. The lookups \<open>rec[idx]\<close> are outside every \<open>try\<close>, so their
  \<open>IndexError\<close> escapes; everything raised inside a \<open>try\<close> falls through to the next
  step.
\<close>

definition parse_rgb_from_record ::
  "(int \<Rightarrow> rgb) \<Rightarrow> pyval list \<Rightarrow> string list \<Rightarrow> py_error + rgb" where
  "parse_rgb_from_record tbl rec field_names_lower =
     (let m = name_to_idx field_names_lower in
      case (case m ''rgb_text'' of
              None \<Rightarrow> Inr None
            | Some rgb_text_idx \<Rightarrow>
                (case py_getitem rec rgb_text_idx of
                   Inl e \<Rightarrow> Inl e
                 | Inr (VStr val) \<Rightarrow> Inr (parse_rgb_text val)
                 | Inr _ \<Rightarrow> Inr None)) of
        Inl e \<Rightarrow> Inl e
      | Inr (Some c) \<Rightarrow> Inr c
      | Inr None \<Rightarrow>
     (case get_val rec m [''r''] of Inl e \<Rightarrow> Inl e | Inr r \<Rightarrow>
      case get_val rec m [''g''] of Inl e \<Rightarrow> Inl e | Inr g \<Rightarrow>
      case get_val rec m [''b''] of Inl e \<Rightarrow> Inl e | Inr b \<Rightarrow>
      case (if r \<noteq> VNone \<and> g \<noteq> VNone \<and> b \<noteq> VNone then channels r g b else None) of
        Some c \<Rightarrow> Inr c
      | None \<Rightarrow>
     (case get_val rec m [''color'', ''colour'', ''clr''] of Inl e \<Rightarrow> Inl e | Inr color_val \<Rightarrow>
      case (case color_val of VStr s \<Rightarrow> parse_color_string s | _ \<Rightarrow> None) of
        Some c \<Rightarrow> Inr c
      | None \<Rightarrow>
     (case get_val rec m [''aci'', ''autocadcolorindex''] of Inl e \<Rightarrow> Inl e | Inr aci_val \<Rightarrow>
      case (if aci_val \<noteq> VNone then parse_aci tbl aci_val else None) of
        Some c \<Rightarrow> Inr c
      | None \<Rightarrow> Inr (0, 0, 0)))))"

section \<open>The colour fallback chain as the specification words it\<close>

text \<open>
  The attribute record of the data model: a mapping from field name to value; a field
  that the record does not have is \<open>None\<close> of the map.
\<close>

type_synonym attribute_record = "string \<rightharpoonup> pyval"

text \<open>The record that a row \<open>rec\<close> and its lower-cased field names stand for.\<close>

definition record_of :: "pyval list \<Rightarrow> string list \<Rightarrow> attribute_record" where
  "record_of rec names = (\<lambda>n. map_option (\<lambda>i. rec ! i) (name_to_idx names n))"

text \<open>The value of the first of the candidate fields that the record has.\<close>

fun first_field :: "attribute_record \<Rightarrow> string list \<Rightarrow> pyval" where
  "first_field a [] = VNone"
| "first_field a (c # cs) = (case a c of Some v \<Rightarrow> v | None \<Rightarrow> first_field a cs)"

text \<open>Step 1: a field \<open>rgb_text\<close> of the form \<open>rgb(R,G,B)\<close>, all channels in 0..255.\<close>

definition step_rgb_text :: "attribute_record \<Rightarrow> rgb option" where
  "step_rgb_text a = (case a ''rgb_text'' of Some (VStr val) \<Rightarrow> parse_rgb_text val | _ \<Rightarrow> None)"

text \<open>Step 2: separate fields \<open>r\<close>, \<open>g\<close>, \<open>b\<close>, all set and all in 0..255.\<close>

definition step_rgb_fields :: "attribute_record \<Rightarrow> rgb option" where
  "step_rgb_fields a =
     (let r = first_field a [''r'']; g = first_field a [''g'']; b = first_field a [''b'']
      in if r \<noteq> VNone \<and> g \<noteq> VNone \<and> b \<noteq> VNone then channels r g b else None)"

text \<open>A colour text stripped of surrounding whitespace and of one leading \<open>#\<close>.\<close>

definition hash_stripped :: "string \<Rightarrow> string" where
  "hash_stripped v = (let s = py_strip v in if startswith s ''#'' then tl s else s)"

text \<open>The text of the \<open>color\<close>/\<open>colour\<close>/\<open>clr\<close> field, when it is a string.\<close>

definition color_text :: "attribute_record \<Rightarrow> string option" where
  "color_text a =
     (case first_field a [''color'', ''colour'', ''clr''] of
        VStr v \<Rightarrow> Some (hash_stripped v)
      | _ \<Rightarrow> None)"

text \<open>Step 3: that field holds six hexadecimal digits.\<close>

definition step_color_hex :: "attribute_record \<Rightarrow> rgb option" where
  "step_color_hex a =
     (case color_text a of
        Some s \<Rightarrow> if length s = 6 \<and> list_all is_hex s
                  then Some (hex_value (take 2 s), hex_value (take 2 (drop 2 s)),
                             hex_value (drop 4 s))
                  else None
      | None \<Rightarrow> None)"

text \<open>Step 4: the same field holds three comma-separated decimal parts in 0..255.\<close>

definition step_color_csv :: "attribute_record \<Rightarrow> rgb option" where
  "step_color_csv a =
     (case color_text a of
        Some s \<Rightarrow> channels_of_parts
                    (map py_strip (split_on (CHR '','')
                       (remove_char (CHR '')'') (remove_char (CHR ''('') s))))
      | None \<Rightarrow> None)"

text \<open>
  Step 5: a field \<open>aci\<close>/\<open>autocadcolorindex\<close> whose integer value is neither 0 nor 256,
  resolved through the indexed-colour table.
\<close>

definition step_aci :: "(int \<Rightarrow> rgb) \<Rightarrow> attribute_record \<Rightarrow> rgb option" where
  "step_aci tbl a =
     (let v = first_field a [''aci'', ''autocadcolorindex'']
      in if v \<noteq> VNone then parse_aci tbl v else None)"

text \<open>The first step that gives a colour decides; black when none does.\<close>

fun first_success :: "rgb option list \<Rightarrow> rgb" where
  "first_success [] = (0, 0, 0)"
| "first_success (Some c # _) = c"
| "first_success (None # steps) = first_success steps"

definition decode_chain :: "(int \<Rightarrow> rgb) \<Rightarrow> attribute_record \<Rightarrow> rgb" where
  "decode_chain tbl a =
     first_success [step_rgb_text a, step_rgb_fields a, step_color_hex a, step_color_csv a,
                    step_aci tbl a]"

text \<open>\<open>f"rgb({R},{G},{B})"\<close>: the one text form in which a colour is written out.\<close>

definition encode_rgb :: "rgb \<Rightarrow> string" where
  "encode_rgb c = (case c of (R, G, B) \<Rightarrow>
     ''rgb('' @ str_int R @ '','' @ str_int G @ '','' @ str_int B @ '')'')"

section \<open>Drawing entities and their colour (dxf2shp.py)\<close>

text \<open>
  The entities that \<open>msp.query("POINT LINE LWPOLYLINE POLYLINE")\<close> yields, with what
  \<open>get_point_xy\<close>, \<open>get_line_xy\<close>, \<open>lwpolyline_xy\<close> and \<open>polyline_xy\<close> read from them. A
  point \<open>'p\<close> is a pair of coordinates; the converters only copy and compare points.
\<close>

datatype 'p geometry =
    PointGeom 'p
  | LineGeom 'p 'p
  | LWPolylineGeom "'p list"
  | PolylineGeom "'p list"

text \<open>
  The attributes the converter reads: the layer name, the true colour and the colour
  index of \<open>e.dxf\<close> (\<open>None\<close> when the attribute is absent or \<open>None\<close>), and the
  attributes \<open>closed\<close> and \<open>is_closed\<close> of the entity (\<open>None\<close> when the attribute is
  absent or is not a \<open>bool\<close>).
\<close>

record 'p entity =
  geom :: "'p geometry"
  layer :: "string option"
  true_color :: "int option"
  color :: "int option"
  closed :: "bool option"
  is_closed_attr :: "bool option"

definition dxftype :: "'p entity \<Rightarrow> string" where
  "dxftype e = (case geom e of
       PointGeom _ \<Rightarrow> ''POINT''
     | LineGeom _ _ \<Rightarrow> ''LINE''
     | LWPolylineGeom _ \<Rightarrow> ''LWPOLYLINE''
     | PolylineGeom _ \<Rightarrow> ''POLYLINE'')"

text \<open>\<open>is_closed\<close>: the first of the two attributes that is a \<open>bool\<close>, else \<open>False\<close>.\<close>

definition is_closed :: "'p entity \<Rightarrow> bool" where
  "is_closed e = (case closed e of Some v \<Rightarrow> v
                  | None \<Rightarrow> (case is_closed_attr e of Some v \<Rightarrow> v | None \<Rightarrow> False))"

text \<open>\<open>close_if_needed\<close>.\<close>

definition close_if_needed :: "'p list \<Rightarrow> 'p list" where
  "close_if_needed pts = (if pts \<noteq> [] \<and> hd pts \<noteq> last pts then pts @ [hd pts] else pts)"

text \<open>A layer of the drawing's layer table, with its colour index when it has one.\<close>

record dxf_layer =
  layer_color :: "int option"

text \<open>
  The inner function \<open>entity_rgb\<close>. The library's \<open>int2rgb\<close> is a parameter, and
  \<open>doc.layers.get\<close> is the lookup \<open>layers\<close>, which raises for a name without a layer
  (\<open>None\<close>). Only the third step is inside \<open>try ... except Exception\<close>.
\<close>

definition entity_rgb ::
  "(int \<Rightarrow> rgb) \<Rightarrow> (int \<Rightarrow> rgb) \<Rightarrow> (string \<rightharpoonup> dxf_layer) \<Rightarrow> 'p entity \<Rightarrow> py_error + rgb" where
  "entity_rgb int2rgb tbl layers ent =
     (case true_color ent of
        Some tc \<Rightarrow> Inr (int2rgb tc)
      | None \<Rightarrow>
          (let aci = (case color ent of None \<Rightarrow> 256 | Some c \<Rightarrow> if c = 0 then 256 else c)
           in if aci \<noteq> 0 \<and> aci \<noteq> 256 then aci2rgb tbl aci
              else (let lay = (case layer ent of
                                 None \<Rightarrow> ''0''
                               | Some l \<Rightarrow> if l = [] then ''0'' else l)
                    in case layers lay of
                         None \<Rightarrow> Inr (0, 0, 0)
                       | Some layer_obj \<Rightarrow>
                           (case aci2rgb tbl (case layer_color layer_obj of
                                                None \<Rightarrow> 7
                                              | Some c \<Rightarrow> if c = 0 then 7 else c) of
                              Inl _ \<Rightarrow> Inr (0, 0, 0)
                            | Inr c \<Rightarrow> Inr c))))"

section \<open>Writing the three output files (dxf2shp.py)\<close>

text \<open>
  What the shapefile writer is handed. \<open>w.point\<close> makes a point shape; \<open>w.line\<close> and
  \<open>w.poly\<close> take a list of parts and make a shape with the flat point list and the
  start index of each part.
\<close>

fun part_starts :: "nat \<Rightarrow> 'p list list \<Rightarrow> int list" where
  "part_starts k [] = []"
| "part_starts k (l # ls) = int k # part_starts (k + length l) ls"

definition point_shape :: "'p \<Rightarrow> 'p shape" where
  "point_shape p = \<lparr>shapeType = POINT, points = [p], parts = None\<rparr>"

definition parts_shape :: "int \<Rightarrow> 'p list list \<Rightarrow> 'p shape" where
  "parts_shape ty ls = \<lparr>shapeType = ty, points = concat ls, parts = Some (part_starts 0 ls)\<rparr>"

text \<open>
  The attribute schema of \<open>WriterSet._init\<close>: three character fields of sizes 64, 16 and
  16. A character value longer than its field is cut to the field's size when the
  record is stored.
\<close>

definition FIELDS :: "(string \<times> nat) list" where
  "FIELDS = [(''layer'', 64), (''etype'', 16), (''RGB_text'', 16)]"

definition stored_record :: "string list \<Rightarrow> pyval list" where
  "stored_record vals = map (\<lambda>((name, size), v). VStr (take size v)) (zip FIELDS vals)"

text \<open>
  \<open>WriterSet\<close>: a writer is the list of the features written so far (shape and
  record), \<open>None\<close> until \<open>get\<close> creates it; \<open>counts\<close> are the three counters.
\<close>

type_synonym 'p feature = "'p shape \<times> pyval list"

record 'p writerset =
  w_points :: "'p feature list option"
  w_lines :: "'p feature list option"
  w_polygons :: "'p feature list option"
  n_points :: nat
  n_lines :: nat
  n_polygons :: nat

definition new_writerset :: "'p writerset" where
  "new_writerset = \<lparr>w_points = None, w_lines = None, w_polygons = None,
                     n_points = 0, n_lines = 0, n_polygons = 0\<rparr>"

text \<open>\<open>writers.get(kind)\<close> followed by one shape, one record and the counter.\<close>

definition written :: "'p feature list option \<Rightarrow> 'p feature list" where
  "written w = (case w of None \<Rightarrow> [] | Some fs \<Rightarrow> fs)"

definition put_point :: "'p feature \<Rightarrow> 'p writerset \<Rightarrow> 'p writerset" where
  "put_point f ws = ws\<lparr>w_points := Some (written (w_points ws) @ [f]), n_points := n_points ws + 1\<rparr>"

definition put_line :: "'p feature \<Rightarrow> 'p writerset \<Rightarrow> 'p writerset" where
  "put_line f ws = ws\<lparr>w_lines := Some (written (w_lines ws) @ [f]), n_lines := n_lines ws + 1\<rparr>"

definition put_polygon :: "'p feature \<Rightarrow> 'p writerset \<Rightarrow> 'p writerset" where
  "put_polygon f ws =
     ws\<lparr>w_polygons := Some (written (w_polygons ws) @ [f]), n_polygons := n_polygons ws + 1\<rparr>"

text \<open>
  The body of the loop of \<open>convert_one_dxf\<close> for one entity. An exception of
  \<open>entity_rgb\<close> is not caught here: it ends the conversion of the file.
\<close>

definition convert_entity ::
  "(int \<Rightarrow> rgb) \<Rightarrow> (int \<Rightarrow> rgb) \<Rightarrow> (string \<rightharpoonup> dxf_layer) \<Rightarrow> 'p entity \<Rightarrow> 'p writerset
     \<Rightarrow> py_error + 'p writerset" where
  "convert_entity int2rgb tbl layers e ws =
     (case entity_rgb int2rgb tbl layers e of
        Inl err \<Rightarrow> Inl err
      | Inr c \<Rightarrow>
          (let et = dxftype e;
               lay = (case layer e of None \<Rightarrow> [] | Some l \<Rightarrow> l);
               rgb_text = encode_rgb c;
               row = stored_record [lay, et, rgb_text]
           in Inr (case geom e of
                PointGeom p \<Rightarrow> put_point (point_shape p, row) ws
              | LineGeom p1 p2 \<Rightarrow> put_line (parts_shape POLYLINE [[p1, p2]], row) ws
              | LWPolylineGeom pts \<Rightarrow>
                  if is_closed e \<and> 3 \<le> length pts
                  then put_polygon (parts_shape POLYGON [close_if_needed pts], row) ws
                  else put_line (parts_shape POLYLINE [pts], row) ws
              | PolylineGeom pts \<Rightarrow>
                  if is_closed e \<and> 3 \<le> length pts
                  then put_polygon (parts_shape POLYGON [close_if_needed pts], row) ws
                  else put_line (parts_shape POLYLINE [pts], row) ws)))"



section \<open>From shapes back to drawing entities (shp2dxf.py)\<close>




text \<open>\<open>xs.index(x)\<close>: the first position of \<open>x\<close>.\<close>

fun index_of :: "'a \<Rightarrow> 'a list \<Rightarrow> nat option" where
  "index_of x [] = None"
| "index_of x (y # ys) = (if x = y then Some 0 else map_option Suc (index_of x ys))"





text \<open>The record written with an entity of colour \<open>c\<close>: layer, entity kind, colour text.\<close>

definition entity_row :: "'p entity \<Rightarrow> rgb \<Rightarrow> pyval list" where
  "entity_row e c =
     stored_record [case layer e of None \<Rightarrow> [] | Some l \<Rightarrow> l, dxftype e, encode_rgb c]"

section \<open>Example inputs\<close>

text \<open>
  An open polyline whose last vertex repeats the first, and a closed polyline of three
  vertices.
\<close>

definition open_loop :: "(int \<times> int) entity" where
  "open_loop = \<lparr>geom = LWPolylineGeom [(0, 0), (4, 0), (4, 3), (0, 0)], layer = Some ''B'',
                 true_color = Some 255, color = None, closed = Some False,
                 is_closed_attr = None\<rparr>"

definition closed_loop :: "(int \<times> int) entity" where
  "closed_loop = \<lparr>geom = PolylineGeom [(0, 0), (4, 0), (4, 3)], layer = Some ''A'',
                   true_color = Some 255, color = None, closed = None,
                   is_closed_attr = Some True\<rparr>"



section \<open>The layer step of the entity colour as the specification words it\<close>


section \<open>Coordinate reference systems (makePrj4shp.py)\<close>

text \<open>The two geographic bases, as the WKT builders return them.\<close>

definition wkt_geogcs_wgs84 :: string where
  \<open>wkt_geogcs_wgs84 =
     ''GEOGCS["WGS 84",'' @
     ''DATUM["WGS_1984",SPHEROID["WGS 84",6378137,298.257223563]],'' @
     ''PRIMEM["Greenwich",0],'' @
     ''UNIT["degree",0.0174532925199433]]''\<close>

definition wkt_geogcs_etrs89 :: string where
  \<open>wkt_geogcs_etrs89 =
     ''GEOGCS["ETRS89",'' @
     ''DATUM["ETRS_1989",SPHEROID["GRS 1980",6378137,298.257222101]],'' @
     ''PRIMEM["Greenwich",0],'' @
     ''UNIT["degree",0.0174532925199433]]''\<close>

text \<open>
  \<open>build_wkt_tm\<close>. Each numeric parameter is passed as the text that the f-string
  writes for it: \<open>str_int\<close> of an integer, and for the float constants of the callers
  the text Python prints for them.
\<close>

definition build_wkt_tm ::
  "string \<Rightarrow> string \<Rightarrow> string \<Rightarrow> string \<Rightarrow> string \<Rightarrow> string \<Rightarrow> string \<Rightarrow> string" where
  \<open>build_wkt_tm name geogcs lat0 lon0 k0 fe fn =
     ''PROJCS["'' @ name @ ''",'' @
     geogcs @ '','' @
     ''PROJECTION["Transverse_Mercator"],'' @
     ''PARAMETER["latitude_of_origin",'' @ lat0 @ ''],'' @
     ''PARAMETER["central_meridian",'' @ lon0 @ ''],'' @
     ''PARAMETER["scale_factor",'' @ k0 @ ''],'' @
     ''PARAMETER["false_easting",'' @ fe @ ''],'' @
     ''PARAMETER["false_northing",'' @ fn @ ''],'' @
     ''UNIT["metre",1]]''\<close>

definition wkt_utm_wgs84 :: "int \<Rightarrow> string \<times> string" where
  "wkt_utm_wgs84 zone =
     (let lon0 = 6 * zone - 183;
          name = ''WGS 84 / UTM zone '' @ str_int zone @ ''N''
      in (name, build_wkt_tm name wkt_geogcs_wgs84 ''0'' (str_int lon0) ''0.9996'' ''500000.0''
                  ''0.0''))"

definition wkt_utm_euref89 :: "int \<Rightarrow> string \<times> string" where
  "wkt_utm_euref89 zone =
     (let lon0 = 6 * zone - 183;
          name = ''EUREF89 / UTM zone '' @ str_int zone @ ''N''
      in (name, build_wkt_tm name wkt_geogcs_etrs89 ''0'' (str_int lon0) ''0.9996'' ''500000.0''
                  ''0.0''))"

text \<open>
  \<open>wkt_ntm\<close>. The central meridian \<open>zone + 0.5\<close> is a float; for the zones the program
  calls it with (5 to 20) Python prints it as the zone followed by \<open>.5\<close>.
\<close>

definition wkt_ntm :: "int \<Rightarrow> string \<times> string" where
  "wkt_ntm zone =
     (let name = ''EUREF89 / NTM zone '' @ str_int zone;
          lon0 = str_int zone @ ''.5''
      in (name, build_wkt_tm name wkt_geogcs_etrs89 ''0.0'' lon0 ''1.0'' ''100000.0''
                  ''1000000.0''))"

text \<open>\<open>build_options\<close>: the catalog, a list of (label, key, wkt).\<close>

type_synonym crs_option = "string \<times> string \<times> string"

definition build_options :: "crs_option list" where
  "build_options =
     map (\<lambda>z. (fst (wkt_utm_euref89 z) @ '' (EPSG:258'' @ str_int z @ '')'',
                ''EUREF89/UTM'' @ str_int z, snd (wkt_utm_euref89 z))) [32, 33, 35]
   @ map (\<lambda>z. (fst (wkt_utm_wgs84 z) @ '' (EPSG:326'' @ str_int z @ '')'',
                ''WGS84/UTM'' @ str_int z, snd (wkt_utm_wgs84 z))) [32, 33, 35]
   @ map (\<lambda>z. (fst (wkt_ntm z) @ '' (EPSG:'' @ str_int (5100 + z) @ '')'',
                ''NTM/'' @ str_int z, snd (wkt_ntm z))) (map int [5..<21])"

text \<open>
  \<open>str.isdigit\<close>: not empty, and every character a digit; besides \<open>0\<close> to \<open>9\<close> the three
  superscript digits of Latin-1 count as digits (and \<open>int\<close> then refuses them).
\<close>

definition py_isdigit :: "string \<Rightarrow> bool" where
  "py_isdigit s = (s \<noteq> [] \<and> list_all (\<lambda>c. is_digit c \<or> c \<in> set [CHR 0xB2, CHR 0xB3, CHR 0xB9]) s)"

text \<open>
  The three patterns of \<open>parse_choice\<close>, each matched against the whole token with
  \<open>re.fullmatch\<close>; the result is the text of the digits group. \<open>\d\<close> matches the
  decimal digits, which among the Latin-1 characters are \<open>0\<close> to \<open>9\<close>.
\<close>

definition strip_prefix :: "string \<Rightarrow> string \<Rightarrow> string option" where
  "strip_prefix p t = (if startswith t p then Some (drop (length p) t) else None)"

text \<open>\<open>(\d{2})N?\<close> up to the end of the token.\<close>

fun two_digits_N :: "string \<Rightarrow> string option" where
  "two_digits_N [a, b] = (if is_digit a \<and> is_digit b then Some [a, b] else None)"
| "two_digits_N [a, b, c] =
     (if is_digit a \<and> is_digit b \<and> c = CHR ''N'' then Some [a, b] else None)"
| "two_digits_N _ = None"

text \<open>\<open>(\d{1,2})\<close> up to the end of the token.\<close>

fun one_or_two_digits :: "string \<Rightarrow> string option" where
  "one_or_two_digits [a] = (if is_digit a then Some [a] else None)"
| "one_or_two_digits [a, b] = (if is_digit a \<and> is_digit b then Some [a, b] else None)"
| "one_or_two_digits _ = None"

text \<open>A pattern that starts with one of several alternatives: the first that fits.\<close>

fun match_alternatives :: "string list \<Rightarrow> (string \<Rightarrow> string option) \<Rightarrow> string \<Rightarrow> string option" where
  "match_alternatives [] rest t = None"
| "match_alternatives (p # ps) rest t =
     (case (case strip_prefix p t of None \<Rightarrow> None | Some r \<Rightarrow> rest r) of
        Some g \<Rightarrow> Some g
      | None \<Rightarrow> match_alternatives ps rest t)"

text \<open>\<open>(WGS|WGS84)/UTM(\d{2})N?\<close>\<close>

definition match_wgs_utm :: "string \<Rightarrow> string option" where
  "match_wgs_utm t = match_alternatives [''WGS/UTM'', ''WGS84/UTM''] two_digits_N t"

text \<open>\<open>((EUREF89|ETRS89)/)?UTM(\d{2})N?\<close>\<close>

definition match_euref_utm :: "string \<Rightarrow> string option" where
  "match_euref_utm t = match_alternatives [''EUREF89/UTM'', ''ETRS89/UTM'', ''UTM''] two_digits_N t"

text \<open>\<open>NTM/(\d{1,2})\<close>\<close>

definition match_ntm :: "string \<Rightarrow> string option" where
  "match_ntm t = match_alternatives [''NTM/''] one_or_two_digits t"

text \<open>
  \<open>parse_choice\<close> (the statements after its first \<open>raise\<close> at the end are never
  reached). Every failure is a \<open>ValueError\<close>; \<open>int\<close> of a matched digits group cannot
  fail, and of a token of superscript digits it does.
\<close>

definition built :: "string \<times> string \<Rightarrow> string \<times> string" where
  "built nw = (fst nw @ '' (WKT built)'', snd nw)"

definition parse_choice :: "string \<Rightarrow> crs_option list \<Rightarrow> py_error + (string \<times> string)" where
  "parse_choice s0 options =
     (let s = py_strip s0 in
      if py_isdigit s
      then (case int_of_str s of
              None \<Rightarrow> Inl ValueError
            | Some idx \<Rightarrow>
                if 1 \<le> idx \<and> idx \<le> int (length options)
                then (case options ! nat (idx - 1) of (label, _, wkt) \<Rightarrow> Inr (label, wkt))
                else Inl ValueError)
      else
       (let t = remove_char (CHR '' '') (py_upper s) in
        case match_wgs_utm t of
          Some g \<Rightarrow> (case int_of_str g of
                       None \<Rightarrow> Inl ValueError
                     | Some zone \<Rightarrow> Inr (built (wkt_utm_wgs84 zone)))
        | None \<Rightarrow>
       (case match_euref_utm t of
          Some g \<Rightarrow> (case int_of_str g of
                       None \<Rightarrow> Inl ValueError
                     | Some zone \<Rightarrow> Inr (built (wkt_utm_euref89 zone)))
        | None \<Rightarrow>
       (case match_ntm t of
          Some g \<Rightarrow> (case int_of_str g of
                       None \<Rightarrow> Inl ValueError
                     | Some zone \<Rightarrow>
                         if \<not> (5 \<le> zone \<and> zone \<le> 20) then Inl ValueError
                         else Inr (built (wkt_ntm zone)))
        | None \<Rightarrow> Inl ValueError))))"


definition option_keys :: "crs_option list \<Rightarrow> string list" where
  "option_keys options = map (\<lambda>e. fst (snd e)) options"


section \<open>Sidecar files (makePrj4shp.py and dxf2shp.py)\<close>

text \<open>
  The files of a folder: a map from path to the text written into the file. Opening a
  file for writing is taken to succeed; \<open>open(path, "w")\<close> replaces what the file
  had.
\<close>

type_synonym filesystem = "string \<rightharpoonup> string"

text \<open>\<open>s.rfind(c)\<close>: the last position of \<open>c\<close>, or \<open>-1\<close>.\<close>

definition rfind :: "char \<Rightarrow> string \<Rightarrow> int" where
  "rfind c s = (case index_of c (rev s) of
                  None \<Rightarrow> - 1
                | Some i \<Rightarrow> int (length s) - 1 - int i)"

text \<open>
  \<open>os.path.splitext\<close> with \<open>/\<close> as the separator: the extension starts at the last dot
  of the last component, unless that component has nothing but dots before it.
\<close>

definition splitext :: "string \<Rightarrow> string \<times> string" where
  "splitext p =
     (let sepIndex = rfind (CHR ''/'') p;
          dotIndex = rfind (CHR ''.'') p
      in if dotIndex > sepIndex
            \<and> \<not> list_all (\<lambda>c. c = CHR ''.'') (py_slice p (sepIndex + 1) dotIndex)
         then (py_slice p 0 dotIndex, py_slice p dotIndex (int (length p)))
         else (p, []))"

definition CPG_CONTENT :: string where
  "CPG_CONTENT = ''UTF-8''"

definition DBF_CPG :: string where
  "DBF_CPG = ''UTF-8''"

definition prj_path :: "string \<Rightarrow> string" where
  "prj_path shp_path = fst (splitext shp_path) @ ''.prj''"

definition cpg_path :: "string \<Rightarrow> string" where
  "cpg_path shp_path = fst (splitext shp_path) @ ''.cpg''"

text \<open>\<open>write_sidecars\<close> of makePrj4shp.py: both files are opened with mode \<open>"w"\<close>.\<close>

definition write_sidecars :: "filesystem \<Rightarrow> string \<Rightarrow> string \<Rightarrow> filesystem" where
  "write_sidecars fs shp_path wkt =
     (fs(prj_path shp_path \<mapsto> wkt @ [CHR 0x0A]))(cpg_path shp_path \<mapsto> CPG_CONTENT)"

text \<open>The loop of \<open>main\<close> over the shapefiles found in the folder.\<close>

fun write_all_sidecars :: "filesystem \<Rightarrow> string list \<Rightarrow> string \<Rightarrow> filesystem" where
  "write_all_sidecars fs [] wkt = fs"
| "write_all_sidecars fs (shp # shps) wkt = write_all_sidecars (write_sidecars fs shp wkt) shps wkt"

text \<open>\<open>write_cpg_if_missing\<close> of dxf2shp.py.\<close>

definition write_cpg_if_missing :: "filesystem \<Rightarrow> string \<Rightarrow> filesystem" where
  "write_cpg_if_missing fs shp_base_path =
     (let cpg = shp_base_path @ ''.cpg''
      in if fs cpg = None then fs(cpg \<mapsto> DBF_CPG) else fs)"

text \<open>A folder in which \<open>a.cpg\<close> already declares another encoding.\<close>

definition latin_folder :: filesystem where
  "latin_folder = [''a.cpg'' \<mapsto> ''ISO-8859-1'']"

chapter \<open>Properties\<close>

section \<open>Multipart splitting\<close>

lemma slice_bound_nonneg: "0 \<le> i \<Longrightarrow> i \<le> int n \<Longrightarrow> slice_bound n i = nat i"
  by (simp add: slice_bound_def)

lemma py_slice_between:
  "0 \<le> a \<Longrightarrow> a \<le> b \<Longrightarrow> b \<le> int (length xs) \<Longrightarrow>
   py_slice xs a b = take (nat b - nat a) (drop (nat a) xs)"
  by (simp add: py_slice_def Let_def slice_bound_nonneg)

lemma split_parts_length: "length (split_parts sh) = length (shape_parts sh)"
  by (simp add: split_parts_def Let_def)

lemma split_parts_nth:
  assumes "i < length (shape_parts sh)"
  shows "split_parts sh ! i =
         py_slice (points sh) (shape_parts sh ! i) (part_end (points sh) (shape_parts sh) i)"
proof -
  let ?ps = "shape_parts sh"
  have "(?ps @ [int (length (points sh))]) ! (i + 1) = part_end (points sh) ?ps i"
    using assms by (auto simp: part_end_def nth_append)
  moreover have "(?ps @ [int (length (points sh))]) ! i = ?ps ! i"
    using assms by (simp add: nth_append)
  ultimately show ?thesis
    using assms by (simp add: split_parts_def Let_def)
qed

lemma concat_cuts:
  "ps \<noteq> [] \<Longrightarrow> sorted ps \<Longrightarrow> concat (cuts xs ps) = drop (hd ps) xs"
proof (induction xs ps rule: cuts.induct)
  case (1 xs)
  then show ?case by simp
next
  case (2 xs a)
  then show ?case by simp
next
  case (3 xs a b ps)
  then have ab: "a \<le> b" by simp
  have "take (b - a) (drop a xs) @ drop b xs = drop a xs"
  proof -
    have "drop b xs = drop (b - a) (drop a xs)" using ab by simp
    then show ?thesis by (simp only: append_take_drop_id)
  qed
  with 3 show ?case by simp
qed

lemma cuts_length: "length (cuts xs ps) = length ps"
  by (induction xs ps rule: cuts.induct) auto

lemma cuts_nth:
  "i < length ps \<Longrightarrow> list_all (\<lambda>p. p \<le> length xs) ps \<Longrightarrow>
   cuts xs ps ! i =
     take ((if i + 1 < length ps then ps ! (i + 1) else length xs) - ps ! i) (drop (ps ! i) xs)"
proof (induction xs ps arbitrary: i rule: cuts.induct)
  case (1 xs)
  then show ?case by simp
next
  case (2 xs a)
  then show ?case by simp
next
  case (3 xs a b ps)
  then show ?case by (cases i) auto
qed

lemma split_parts_cuts:
  assumes asc: "ascending_starts (points sh) (shape_parts sh)"
  shows "split_parts sh = cuts (points sh) (map nat (shape_parts sh))"
proof (rule nth_equalityI)
  show "length (split_parts sh) = length (cuts (points sh) (map nat (shape_parts sh)))"
    by (simp add: split_parts_length cuts_length)
next
  fix i assume "i < length (split_parts sh)"
  then have i: "i < length (shape_parts sh)" by (simp add: split_parts_length)
  let ?ps = "shape_parts sh" and ?pts = "points sh"
  have sorted: "sorted ?ps" and rng: "\<forall>p\<in>set ?ps. 0 \<le> p \<and> p \<le> int (length ?pts)"
    using asc by (auto simp: ascending_starts_def list_all_iff)
  have a0: "0 \<le> ?ps ! i" "?ps ! i \<le> int (length ?pts)" using rng i by auto
  have e0: "?ps ! i \<le> part_end ?pts ?ps i" "part_end ?pts ?ps i \<le> int (length ?pts)"
    using rng i sorted a0 by (auto simp: part_end_def sorted_iff_nth_mono)
  have "split_parts sh ! i
      = take (nat (part_end ?pts ?ps i) - nat (?ps ! i)) (drop (nat (?ps ! i)) ?pts)"
    using split_parts_nth[OF i] py_slice_between[OF a0(1) e0(1) e0(2)] by simp
  moreover have "cuts ?pts (map nat ?ps) ! i
      = take (nat (part_end ?pts ?ps i) - nat (?ps ! i)) (drop (nat (?ps ! i)) ?pts)"
  proof -
    have "list_all (\<lambda>p. p \<le> length ?pts) (map nat ?ps)"
      using rng by (auto simp: list_all_iff)
    then show ?thesis
      using cuts_nth[of i "map nat ?ps" ?pts] i by (auto simp: part_end_def)
  qed
  ultimately show "split_parts sh ! i = cuts ?pts (map nat ?ps) ! i" by simp
qed

text \<open>
  Claim C10, as amended. For every shape whose part start indices are ascending
  positions in its flat point list, the list is not empty and its first index is 0,
  the parts that \<open>_split_parts\<close> yields are exactly the contiguous slices between
  consecutive start indices, the last one ending at the end of the point list, and
  their concatenation in order is the original point list.
\<close>

theorem split_parts_partition:
  assumes "ascending_starts (points sh) (shape_parts sh)"
    and "shape_parts sh \<noteq> []" and "hd (shape_parts sh) = 0"
  shows "split_parts sh = cuts (points sh) (map nat (shape_parts sh))
       \<and> concat (split_parts sh) = points sh"
proof -
  have "sorted (map nat (shape_parts sh))"
    using assms(1)
    by (auto simp: ascending_starts_def intro!: sorted_map[THEN iffD2] sorted_wrt_mono_rel[of _ "(\<le>)"])
  then show ?thesis
    using split_parts_cuts[OF assms(1)]
      concat_cuts[of "map nat (shape_parts sh)" "points sh"] assms(2,3)
    by (simp add: hd_map)
qed

text \<open>
  The amended property at a two-part polyline of four points with parts \<open>[0, 2]\<close>.
\<close>

theorem split_parts_partition_witness:
  "ascending_starts [10, 20, 30, 40 :: int] [0, 2]
   \<and> split_parts \<lparr>shapeType = POLYLINE, points = [10, 20, 30, 40 :: int], parts = Some [0, 2]\<rparr>
       = [[10, 20], [30, 40]]
   \<and> concat (split_parts \<lparr>shapeType = POLYLINE, points = [10, 20, 30, 40 :: int],
                          parts = Some [0, 2]\<rparr>) = [10, 20, 30, 40]"
  using split_parts_partition
    [of "\<lparr>shapeType = POLYLINE, points = [10, 20, 30, 40 :: int], parts = Some [0, 2]\<rparr>"]
  by (simp add: ascending_starts_def shape_parts_def)

text \<open>
  The claim as it is worded fails when the first start index is not 0: the start indices
  \<open>[1, 2]\<close> are ascending indices into a list of three points, and the yielded parts
  leave the first point out.
\<close>

theorem split_parts_partition_counterexample:
  "ascending_starts [10, 20, 30 :: int] [1, 2]
   \<and> split_parts \<lparr>shapeType = POLYLINE, points = [10, 20, 30 :: int], parts = Some [1, 2]\<rparr>
       = [[20], [30]]
   \<and> concat (split_parts \<lparr>shapeType = POLYLINE, points = [10, 20, 30 :: int],
                          parts = Some [1, 2]\<rparr>) \<noteq> [10, 20, 30]"
  by (simp add: ascending_starts_def split_parts_def shape_parts_def py_slice_def
      slice_bound_def Let_def upt_rec)

section \<open>Helper lemmas: record lookups\<close>

lemma fold_idx_bound:
  "fold (\<lambda>(i, n) m. m(n \<mapsto> i)) (enumerate k xs) m0 n = Some i \<Longrightarrow>
   (k \<le> i \<and> i < k + length xs) \<or> m0 n = Some i"
proof (induction xs arbitrary: k m0)
  case Nil
  then show ?case by simp
next
  case (Cons x xs)
  from Cons.prems have "fold (\<lambda>(i, n) m. m(n \<mapsto> i)) (enumerate (Suc k) xs) (m0(x \<mapsto> k)) n = Some i"
    by (simp del: fun_upd_apply)
  from Cons.IH[OF this] show ?case by (auto split: if_splits)
qed

lemma name_to_idx_bound: "name_to_idx names n = Some i \<Longrightarrow> i < length names"
  using fold_idx_bound[of 0 names Map.empty n i] by (simp add: name_to_idx_def)

lemma get_val_first_field:
  assumes "length names \<le> length rec"
  shows "get_val rec (name_to_idx names) cs
         = Inr (first_field (record_of rec names) (map py_lower cs))"
proof (induction cs)
  case Nil
  then show ?case by simp
next
  case (Cons c cs)
  show ?case
  proof (cases "name_to_idx names (py_lower c)")
    case None
    then show ?thesis using Cons by (simp add: record_of_def)
  next
    case (Some i)
    then have "i < length rec" using name_to_idx_bound assms by fastforce
    then show ?thesis using Some by (simp add: record_of_def py_getitem_def)
  qed
qed

lemma lower_literals:
  "py_lower ''r'' = ''r''" "py_lower ''g'' = ''g''" "py_lower ''b'' = ''b''"
  "py_lower ''color'' = ''color''" "py_lower ''colour'' = ''colour''" "py_lower ''clr'' = ''clr''"
  "py_lower ''aci'' = ''aci''" "py_lower ''autocadcolorindex'' = ''autocadcolorindex''"
  by (simp_all add: py_lower_def lower_char_def upper_chars_def lower_chars_def)

lemma slice_hex:
  "length s = 6 \<Longrightarrow> py_slice s 0 2 = take 2 s \<and> py_slice s 2 4 = take 2 (drop 2 s)
     \<and> py_slice s 4 6 = drop 4 s"
  by (simp add: py_slice_def slice_bound_def Let_def)

lemma slice_tail: "s \<noteq> [] \<Longrightarrow> py_slice s 1 (int (length s)) = tl s"
  by (cases s) (simp_all add: py_slice_def slice_bound_def Let_def)

lemma startswith_nonempty: "startswith s ''#'' \<Longrightarrow> s \<noteq> []"
  by (auto simp: startswith_def)

section \<open>Helper lemmas: the steps of the colour chain\<close>

lemma parse_color_string_eq:
  "parse_color_string v =
     (if length (hash_stripped v) = 6 \<and> list_all is_hex (hash_stripped v)
      then Some (hex_value (take 2 (hash_stripped v)), hex_value (take 2 (drop 2 (hash_stripped v))),
                 hex_value (drop 4 (hash_stripped v)))
      else channels_of_parts (map py_strip (split_on (CHR '','')
             (remove_char (CHR '')'') (remove_char (CHR ''('') (hash_stripped v))))))"
proof (cases "startswith (py_strip v) ''#''")
  case True
  then have "py_slice (py_strip v) 1 (int (length (py_strip v))) = tl (py_strip v)"
    by (simp add: slice_tail startswith_nonempty)
  then show ?thesis using True
    by (simp add: parse_color_string_def hash_stripped_def Let_def slice_hex)
next
  case False
  then show ?thesis
    by (simp add: parse_color_string_def hash_stripped_def Let_def slice_hex)
qed

lemma color_string_steps:
  "(case first_field a [''color'', ''colour'', ''clr''] of
      VStr s \<Rightarrow> parse_color_string s | _ \<Rightarrow> None)
   = (case step_color_hex a of Some c \<Rightarrow> Some c | None \<Rightarrow> step_color_csv a)"
proof (cases "first_field a [''color'', ''colour'', ''clr'']")
  case (VStr v)
  then show ?thesis
    by (simp add: step_color_hex_def step_color_csv_def color_text_def parse_color_string_eq
        del: first_field.simps)
next
  case (VInt i)
  then show ?thesis
    by (simp add: step_color_hex_def step_color_csv_def color_text_def del: first_field.simps)
next
  case VNone
  then show ?thesis
    by (simp add: step_color_hex_def step_color_csv_def color_text_def del: first_field.simps)
qed

lemma first_success_5:
  "first_success [s1, s2, s3, s4, s5] =
     (case s1 of Some c \<Rightarrow> c | None \<Rightarrow>
      case s2 of Some c \<Rightarrow> c | None \<Rightarrow>
      case (case s3 of Some c \<Rightarrow> Some c | None \<Rightarrow> s4) of Some c \<Rightarrow> c | None \<Rightarrow>
      case s5 of Some c \<Rightarrow> c | None \<Rightarrow> (0, 0, 0))"
  by (cases s1; cases s2; cases s3; cases s4; cases s5) simp_all

lemma rgb_text_block:
  assumes "length names \<le> length rec"
  shows "(case name_to_idx names ''rgb_text'' of
              None \<Rightarrow> Inr None
            | Some rgb_text_idx \<Rightarrow>
                (case py_getitem rec rgb_text_idx of
                   Inl e \<Rightarrow> Inl e
                 | Inr (VStr val) \<Rightarrow> Inr (parse_rgb_text val)
                 | Inr _ \<Rightarrow> Inr None)) = Inr (step_rgb_text (record_of rec names))"
proof (cases "name_to_idx names ''rgb_text''")
  case None
  then show ?thesis by (simp add: step_rgb_text_def record_of_def)
next
  case (Some i)
  then have "i < length rec" using name_to_idx_bound assms by fastforce
  then show ?thesis using Some
    by (simp add: step_rgb_text_def record_of_def py_getitem_def split: pyval.splits)
qed


section \<open>Helper lemmas: decimal text\<close>

lemma digit_char_is_digit: "d < 10 \<Longrightarrow> is_digit (digit_char d)"
proof -
  assume "d < 10"
  then have "d \<in> {0,1,2,3,4,5,6,7,8,9}" by auto
  then show ?thesis by (auto simp: is_digit_def digit_char_def)
qed

lemma digit_val_digit_char: "d < 10 \<Longrightarrow> digit_val (digit_char d) = int d"
proof -
  assume "d < 10"
  then have "d \<in> {0,1,2,3,4,5,6,7,8,9}" by auto
  then show ?thesis by (auto simp: digit_val_def digit_char_def)
qed

lemma str_nat_digits: "str_nat n \<noteq> [] \<and> list_all is_digit (str_nat n)"
proof (induction n rule: str_nat.induct)
  case (1 n)
  show ?case
  proof (cases "n < 10")
    case True
    then show ?thesis by (simp add: str_nat.simps[of n] digit_char_is_digit)
  next
    case False
    then show ?thesis using 1 by (simp add: str_nat.simps[of n] digit_char_is_digit)
  qed
qed

lemma digits_value_snoc: "digits_value (ds @ [c]) = 10 * digits_value ds + digit_val c"
  by (simp add: digits_value_def)

lemma digits_value_str_nat: "digits_value (str_nat n) = int n"
proof (induction n rule: str_nat.induct)
  case (1 n)
  show ?case
  proof (cases "n < 10")
    case True
    then show ?thesis
      by (simp add: str_nat.simps[of n] digits_value_def digit_val_digit_char)
  next
    case False
    then have "digits_value (str_nat n) = 10 * int (n div 10) + int (n mod 10)"
      using 1 by (simp add: str_nat.simps[of n] digits_value_snoc digit_val_digit_char)
    then show ?thesis by presburger
  qed
qed

lemma well_grouped_digits: "ds \<noteq> [] \<Longrightarrow> list_all is_digit ds \<Longrightarrow> well_grouped ds"
proof (induction ds rule: well_grouped.induct)
  case 1
  then show ?case by simp
next
  case (2 c)
  then show ?case by simp
next
  case (3 c d cs)
  then have "d \<noteq> CHR ''_''" by (auto simp: is_digit_def)
  with 3 show ?case by simp
qed

lemma is_digit_facts:
  "is_digit c \<Longrightarrow> \<not> py_isspace c \<and> c \<noteq> CHR ''_'' \<and> c \<noteq> CHR ''-'' \<and> c \<noteq> CHR ''+''
     \<and> c \<noteq> CHR '','' \<and> c \<noteq> CHR ''('' \<and> c \<noteq> CHR '')''"
  by (auto simp: is_digit_def py_isspace_def)

lemma is_digit_not_int_space: "is_digit c \<Longrightarrow> \<not> int_isspace c"
  by (auto simp: is_digit_def int_isspace_def)

lemma int_strip_id:
  assumes "s \<noteq> []" "\<not> int_isspace (hd s)" "\<not> int_isspace (last s)"
  shows "int_strip s = s"
proof -
  have "dropWhile int_isspace s = s" using assms by (cases s) auto
  moreover have "dropWhile int_isspace (rev s) = rev s"
    using assms by (cases "rev s") (auto simp: last_rev[symmetric] hd_rev)
  ultimately show ?thesis by (simp add: int_strip_def)
qed

lemma py_strip_id:
  assumes "s \<noteq> []" "\<not> py_isspace (hd s)" "\<not> py_isspace (last s)"
  shows "py_strip s = s"
proof -
  have "dropWhile py_isspace s = s" using assms by (cases s) auto
  moreover have "dropWhile py_isspace (rev s) = rev s"
    using assms by (cases "rev s") (auto simp: last_rev[symmetric] hd_rev)
  ultimately show ?thesis by (simp add: py_strip_def)
qed

lemma int_of_str_digits:
  assumes "ds \<noteq> []" "list_all is_digit ds"
  shows "int_of_str ds = Some (digits_value ds)"
proof -
  have hd: "is_digit (hd ds)" and lst: "is_digit (last ds)"
    using assms by (simp_all add: list_all_iff)
  have strip: "int_strip ds = ds"
    using assms(1) is_digit_not_int_space[OF hd] is_digit_not_int_space[OF lst]
    by (simp add: int_strip_id)
  obtain c cs where ds: "ds = c # cs" using assms(1) by (cases ds) auto
  have "c \<noteq> CHR ''-''" "c \<noteq> CHR ''+''"
    using is_digit_facts[OF hd] ds by simp_all
  then have nosign: "\<not> startswith ds ''-''" "\<not> startswith ds ''+''"
    using ds by (simp_all add: startswith_def)
  have "\<forall>c\<in>set ds. c \<noteq> CHR ''_''"
    using assms(2) is_digit_facts by (simp add: list_all_iff)
  then have "remove_char (CHR ''_'') ds = ds"
    by (simp add: remove_char_def)
  then show ?thesis
    using strip nosign well_grouped_digits[OF assms]
    by (simp add: int_of_str_def Let_def)
qed

lemma int_of_str_str_int: "0 \<le> i \<Longrightarrow> int_of_str (str_int i) = Some i"
  using int_of_str_digits[of "str_nat (nat i)"] str_nat_digits[of "nat i"]
  by (simp add: str_int_def digits_value_str_nat)

lemma split_on_no_sep: "sep \<notin> set s \<Longrightarrow> split_on sep s = [s]"
  by (induction s) auto

lemma split_on_append:
  "sep \<notin> set s \<Longrightarrow> split_on sep (s @ sep # rest) = s # split_on sep rest"
  by (induction s) auto

lemma str_int_no_comma: "0 \<le> i \<Longrightarrow> CHR '','' \<notin> set (str_int i)"
proof -
  assume "0 \<le> i"
  then have "str_int i = str_nat (nat i)" by (simp add: str_int_def)
  moreover have "\<forall>c\<in>set (str_nat (nat i)). c \<noteq> CHR '',''"
    using str_nat_digits[of "nat i"] is_digit_facts by (simp add: list_all_iff)
  ultimately show ?thesis by auto
qed

lemma py_slice_inner: "py_slice (p @ body @ [c]) (int (length p)) (- 1) = body"
  by (simp add: py_slice_def slice_bound_def Let_def)

lemma parse_rgb_text_encode:
  assumes "in_byte R" "in_byte G" "in_byte B"
  shows "parse_rgb_text (encode_rgb (R, G, B)) = Some (R, G, B)"
proof -
  let ?body = "str_int R @ '','' @ str_int G @ '','' @ str_int B"
  have nn: "0 \<le> R" "0 \<le> G" "0 \<le> B" using assms by (auto simp: in_byte_def)
  have enc: "encode_rgb (R, G, B) = ''rgb('' @ ?body @ '')''" by (simp add: encode_rgb_def)
  have low: "py_lower (''rgb('' @ ?body @ '')'') = ''rgb('' @ py_lower (?body @ '')'')"
    by (simp add: py_lower_def lower_char_def upper_chars_def lower_chars_def)
  have st: "startswith (py_lower (''rgb('' @ ?body @ '')'')) ''rgb(''"
    unfolding low by (simp add: startswith_def)
  have en: "endswith (''rgb('' @ ?body @ '')'') '')''"
    by (simp add: endswith_def)
  have sl: "py_slice (''rgb('' @ ?body @ '')'') 4 (- 1) = ?body"
    using py_slice_inner[of "''rgb(''" ?body "CHR '')''"] by simp
  have sp: "split_on (CHR '','') ?body = [str_int R, str_int G, str_int B]"
    using split_on_append[of "CHR '',''" "str_int R" "str_int G @ '','' @ str_int B"]
      split_on_append[of "CHR '',''" "str_int G" "str_int B"]
      split_on_no_sep[of "CHR '',''" "str_int B"] str_int_no_comma nn
    by simp
  have ch: "channels_of_parts [str_int R, str_int G, str_int B] = Some (R, G, B)"
    using assms nn by (simp add: channels_of_parts_def channels_def int_of_str_str_int)
  show ?thesis
    unfolding enc parse_rgb_text_def using st en by (simp only: sl sp ch if_True simp_thms)
qed

section \<open>The colour of an attribute record\<close>

lemma decode_refines:
  assumes "length names \<le> length rec"
  shows "parse_rgb_from_record tbl rec names = Inr (decode_chain tbl (record_of rec names))"
proof -
  let ?a = "record_of rec names"
  note gv = get_val_first_field[OF assms]
  have cs: "(case first_field ?a [''color'', ''colour'', ''clr''] of
      VStr s \<Rightarrow> parse_color_string s | _ \<Rightarrow> None)
   = (case step_color_hex ?a of Some c \<Rightarrow> Some c | None \<Rightarrow> step_color_csv ?a)"
    by (rule color_string_steps)
  show ?thesis
    unfolding parse_rgb_from_record_def Let_def rgb_text_block[OF assms] gv decode_chain_def
      first_success_5 list.map lower_literals sum.case cs
    by (simp add: step_rgb_fields_def step_aci_def Let_def del: first_field.simps
        split: option.splits)
qed

lemma decode_rgb_text_field:
  assumes "length names \<le> length rec"
    and "record_of rec names ''rgb_text'' = Some (VStr (encode_rgb (R, G, B)))"
    and "in_byte R" "in_byte G" "in_byte B"
  shows "parse_rgb_from_record tbl rec names = Inr (R, G, B)"
proof -
  have "step_rgb_text (record_of rec names) = Some (R, G, B)"
    using assms(2) parse_rgb_text_encode[OF assms(3-5)] by (simp add: step_rgb_text_def)
  then show ?thesis
    using decode_refines[OF assms(1), of tbl] by (simp add: decode_chain_def)
qed










section \<open>Routing polylines to lines or polygons\<close>

lemma parts_shape_single:
  "parts_shape ty [pts] = \<lparr>shapeType = ty, points = pts, parts = Some [0]\<rparr>"
  by (simp add: parts_shape_def)

lemma close_if_needed_eq:
  "pts \<noteq> [] \<Longrightarrow> close_if_needed pts = (if hd pts = last pts then pts else pts @ [hd pts])"
  by (simp add: close_if_needed_def)

text \<open>
  Claim C2. A \<open>LWPOLYLINE\<close> or \<open>POLYLINE\<close> entity goes to the polygons output exactly
  when its closed flag is set and it has at least three points; its ring is then
  closed by appending the first point if first and last differ. Otherwise it goes to
  the lines output with its vertex sequence unchanged, so an open polyline whose first
  and last points coincide is not promoted to a polygon. The other outputs stay as
  they were.
\<close>

theorem polyline_routing:
  assumes poly: "geom e = LWPolylineGeom pts \<or> geom e = PolylineGeom pts"
    and col: "entity_rgb int2rgb tbl layers e = Inr c"
  shows "\<exists>ws'. convert_entity int2rgb tbl layers e ws = Inr ws'
     \<and> w_points ws' = w_points ws
     \<and> (is_closed e \<and> 3 \<le> length pts \<longrightarrow>
          written (w_polygons ws') = written (w_polygons ws) @
             [(\<lparr>shapeType = POLYGON,
                 points = (if hd pts = last pts then pts else pts @ [hd pts]),
                 parts = Some [0]\<rparr>, entity_row e c)]
          \<and> w_lines ws' = w_lines ws)
     \<and> (\<not> (is_closed e \<and> 3 \<le> length pts) \<longrightarrow>
          written (w_lines ws') = written (w_lines ws) @
             [(\<lparr>shapeType = POLYLINE, points = pts, parts = Some [0]\<rparr>, entity_row e c)]
          \<and> w_polygons ws' = w_polygons ws)"
proof (cases "is_closed e \<and> 3 \<le> length pts")
  case True
  then have ne: "pts \<noteq> []" by auto
  show ?thesis
    using poly col True
    by (auto simp: convert_entity_def Let_def put_polygon_def written_def parts_shape_single
        close_if_needed_eq[OF ne] entity_row_def)
next
  case False
  show ?thesis
    using poly col False
    by (auto simp: convert_entity_def Let_def put_line_def written_def parts_shape_single
        entity_row_def)
qed

lemma encode_00255: "encode_rgb (0, 0, 255) = ''rgb(0,0,255)''"
  by (simp add: encode_rgb_def str_int_def str_nat.simps digit_char_def)

text \<open>
  The property at an open polyline whose end points coincide (written as a line, as it
  is) and at a closed polyline of three points (written as a polygon of four).
\<close>

theorem polyline_routing_witness:
  "entity_rgb (\<lambda>v. (0, 0, v)) (\<lambda>i. (i, i, i)) Map.empty open_loop = Inr (0, 0, 255)
   \<and> entity_rgb (\<lambda>v. (0, 0, v)) (\<lambda>i. (i, i, i)) Map.empty closed_loop = Inr (0, 0, 255)
   \<and> convert_entity (\<lambda>v. (0, 0, v)) (\<lambda>i. (i, i, i)) Map.empty open_loop new_writerset
       = Inr \<lparr>w_points = None,
              w_lines = Some [(\<lparr>shapeType = POLYLINE, points = [(0, 0), (4, 0), (4, 3), (0, 0)],
                                parts = Some [0]\<rparr>,
                               [VStr ''B'', VStr ''LWPOLYLINE'', VStr ''rgb(0,0,255)''])],
              w_polygons = None, n_points = 0, n_lines = 1, n_polygons = 0\<rparr>
   \<and> convert_entity (\<lambda>v. (0, 0, v)) (\<lambda>i. (i, i, i)) Map.empty closed_loop new_writerset
       = Inr \<lparr>w_points = None, w_lines = None,
              w_polygons = Some [(\<lparr>shapeType = POLYGON,
                                   points = [(0, 0), (4, 0), (4, 3), (0, 0)],
                                   parts = Some [0]\<rparr>,
                                  [VStr ''A'', VStr ''POLYLINE'', VStr ''rgb(0,0,255)''])],
              n_points = 0, n_lines = 0, n_polygons = 1\<rparr>"
proof -
  have c1: "entity_rgb (\<lambda>v. (0, 0, v)) (\<lambda>i. (i, i, i)) Map.empty open_loop = Inr (0, 0, 255)"
    by (simp add: entity_rgb_def open_loop_def)
  have c2: "entity_rgb (\<lambda>v. (0, 0, v)) (\<lambda>i. (i, i, i)) Map.empty closed_loop = Inr (0, 0, 255)"
    by (simp add: entity_rgb_def closed_loop_def)
  have g1: "geom open_loop = LWPolylineGeom [(0, 0), (4, 0), (4, 3), (0, 0)]
          \<or> geom open_loop = PolylineGeom [(0, 0), (4, 0), (4, 3), (0, 0)]"
    by (simp add: open_loop_def)
  have g2: "geom closed_loop = LWPolylineGeom [(0, 0), (4, 0), (4, 3)]
          \<or> geom closed_loop = PolylineGeom [(0, 0), (4, 0), (4, 3)]"
    by (simp add: closed_loop_def)
  show ?thesis
    using polyline_routing [OF g1 c1, of new_writerset]
      polyline_routing [OF g2 c2, of new_writerset] c1 c2
    by (simp add: convert_entity_def Let_def open_loop_def closed_loop_def is_closed_def
        put_line_def put_polygon_def written_def new_writerset_def parts_shape_def
        close_if_needed_def dxftype_def stored_record_def FIELDS_def encode_00255)
qed

section \<open>Colour text written and read back\<close>

lemma str_nat_length: "n < 1000 \<Longrightarrow> length (str_nat n) \<le> 3"
proof -
  assume n: "n < 1000"
  have a: "\<And>m. m < 10 \<Longrightarrow> length (str_nat m) = 1"
    by (subst str_nat.simps) simp
  have b: "\<And>m. m < 100 \<Longrightarrow> length (str_nat m) \<le> 2"
  proof -
    fix m :: nat assume "m < 100"
    then have "m div 10 < 10" by simp
    then show "length (str_nat m) \<le> 2" using a[of "m div 10"] a[of m]
      by (subst str_nat.simps) (simp split: if_splits)
  qed
  have "n div 10 < 100" using n by simp
  then show ?thesis using b[of "n div 10"] a[of n]
    by (subst str_nat.simps) (simp split: if_splits)
qed

lemma encode_rgb_length:
  assumes "in_byte R" "in_byte G" "in_byte B"
  shows "length (encode_rgb (R, G, B)) \<le> 16"
proof -
  have len: "\<And>v. in_byte v \<Longrightarrow> length (str_int v) \<le> 3"
  proof -
    fix v assume "in_byte v"
    then have "0 \<le> v" "nat v < 1000" by (auto simp: in_byte_def)
    then show "length (str_int v) \<le> 3" using str_nat_length[of "nat v"]
      by (simp add: str_int_def)
  qed
  have "length (str_int R) \<le> 3" "length (str_int G) \<le> 3" "length (str_int B) \<le> 3"
    using assms len by simp_all
  then show ?thesis by (simp add: encode_rgb_def)
qed

lemma fields_lower: "map py_lower (map fst FIELDS) = [''layer'', ''etype'', ''rgb_text'']"
  by (simp add: FIELDS_def py_lower_def lower_char_def upper_chars_def lower_chars_def)

lemma stored_record_3:
  "stored_record [a, b, c] = [VStr (take 64 a), VStr (take 16 b), VStr (take 16 c)]"
  by (simp add: stored_record_def FIELDS_def)

lemma record_of_written:
  "record_of [x, y, z] [''layer'', ''etype'', ''rgb_text''] ''rgb_text'' = Some z"
  by (simp add: record_of_def name_to_idx_def)

text \<open>
  Claim C7. For every colour whose three channels are integers in 0..255, the text
  \<open>rgb(R,G,B)\<close> that the drawing-to-GIS converter writes into the \<open>RGB_text\<close> field of
  a record (decimal, unpadded, within the 16 characters of the field) is decoded from
  that record, under the lower-cased field names, to exactly the same colour.
\<close>

theorem color_round_trip:
  assumes "in_byte R" "in_byte G" "in_byte B"
  shows "parse_rgb_from_record tbl (stored_record [lay, et, encode_rgb (R, G, B)])
           (map py_lower (map fst FIELDS)) = Inr (R, G, B)"
proof -
  have "take 16 (encode_rgb (R, G, B)) = encode_rgb (R, G, B)"
    using encode_rgb_length[OF assms] by simp
  then show ?thesis
    unfolding fields_lower stored_record_3
    using assms by (intro decode_rgb_text_field) (simp_all add: record_of_written)
qed

text \<open>The round trip at the colour \<open>(255, 0, 7)\<close>.\<close>

theorem color_round_trip_witness:
  "in_byte 255 \<and> in_byte 0 \<and> in_byte 7
   \<and> stored_record [''A'', ''POINT'', encode_rgb (255, 0, 7)]
        = [VStr ''A'', VStr ''POINT'', VStr ''rgb(255,0,7)'']
   \<and> parse_rgb_from_record (\<lambda>i. (i, i, i)) [VStr ''A'', VStr ''POINT'', VStr ''rgb(255,0,7)'']
        [''layer'', ''etype'', ''rgb_text''] = Inr (255, 0, 7)"
proof -
  have b: "in_byte 255" "in_byte 0" "in_byte 7" by (simp_all add: in_byte_def)
  have e: "encode_rgb (255, 0, 7) = ''rgb(255,0,7)''"
    by (simp add: encode_rgb_def str_int_def str_nat.simps digit_char_def)
  show ?thesis
    using color_round_trip [OF b, of "\<lambda>i. (i, i, i)" "''A''" "''POINT''"] b
    unfolding fields_lower stored_record_3 e by simp
qed


section \<open>Closure round trip\<close>






section \<open>The colour of a drawing entity\<close>





section \<open>Helper lemmas: tokens in normal form\<close>






section \<open>Helper lemmas: zone tokens\<close>











section \<open>Selecting a coordinate reference system\<close>

lemma catalog_keys:
  "option_keys build_options =
     [''EUREF89/UTM32'', ''EUREF89/UTM33'', ''EUREF89/UTM35'',
      ''WGS84/UTM32'', ''WGS84/UTM33'', ''WGS84/UTM35'',
      ''NTM/5'', ''NTM/6'', ''NTM/7'', ''NTM/8'', ''NTM/9'', ''NTM/10'', ''NTM/11'', ''NTM/12'',
      ''NTM/13'', ''NTM/14'', ''NTM/15'', ''NTM/16'', ''NTM/17'', ''NTM/18'', ''NTM/19'',
      ''NTM/20'']"
  by (simp add: option_keys_def build_options_def str_int_def str_nat.simps digit_char_def)

lemma catalog_length: "length build_options = 22"
  by (simp add: build_options_def)










lemma parse_choice_index:
  assumes ne: "s \<noteq> []" and dg: "list_all is_digit s"
  shows "parse_choice s options =
           (if 1 \<le> digits_value s \<and> digits_value s \<le> int (length options)
            then Inr (case options ! nat (digits_value s - 1) of (label, key, wkt) \<Rightarrow> (label, wkt))
            else Inl ValueError)"
proof -
  have hd: "is_digit (hd s)" and lst: "is_digit (last s)"
    using ne dg by (simp_all add: list_all_iff)
  have strip: "py_strip s = s"
    using ne is_digit_facts[OF hd] is_digit_facts[OF lst] by (simp add: py_strip_id)
  have isd: "py_isdigit s"
    using ne dg by (simp add: py_isdigit_def list_all_iff)
  show ?thesis
    using strip isd int_of_str_digits[OF ne dg]
    by (simp add: parse_choice_def Let_def split: prod.splits)
qed

lemma seventh_entry:
  "build_options ! 6 = (''EUREF89 / NTM zone 5 (EPSG:5105)'', ''NTM/5'', snd (wkt_ntm 5))"
  by (simp add: build_options_def wkt_ntm_def Let_def str_int_def str_nat.simps digit_char_def
      nth_append)

lemma sixth_entry:
  "build_options ! 5 = (''WGS 84 / UTM zone 35N (EPSG:32635)'', ''WGS84/UTM35'',
                        snd (wkt_utm_wgs84 35))"
  by (simp add: build_options_def wkt_utm_wgs84_def Let_def str_int_def str_nat.simps
      digit_char_def nth_append)

lemma dv7: "digits_value ''7'' = 7" "digits_value ''6'' = 6" "digits_value ''23'' = 23"
  "digits_value ''0'' = 0"
  by (simp_all add: digits_value_def digit_val_def)

lemma choice_7:
  "parse_choice ''7'' build_options = Inr (''EUREF89 / NTM zone 5 (EPSG:5105)'', snd (wkt_ntm 5))"
  using parse_choice_index[of "''7''" build_options]
  by (simp add: is_digit_def dv7 catalog_length seventh_entry)

lemma choice_6:
  "parse_choice ''6'' build_options
     = Inr (''WGS 84 / UTM zone 35N (EPSG:32635)'', snd (wkt_utm_wgs84 35))"
  using parse_choice_index[of "''6''" build_options]
  by (simp add: is_digit_def dv7 catalog_length sixth_entry)

text \<open>
  Claim C5, as amended. The catalog has 22 entries in the order EUREF89/UTM 32, 33, 35,
  then WGS84/UTM 32, 33, 35, then NTM 5 to 20. A token of decimal digits is a 1-based
  index into it and fails when it is outside 1..22. The token \<open>7\<close> returns the
  seventh entry, which is the NTM/5 entry; the WGS84/UTM35 entry is the sixth.
\<close>

theorem index_choice:
  assumes "s \<noteq> []" and "list_all is_digit s"
  shows "option_keys build_options =
           [''EUREF89/UTM32'', ''EUREF89/UTM33'', ''EUREF89/UTM35'',
            ''WGS84/UTM32'', ''WGS84/UTM33'', ''WGS84/UTM35'',
            ''NTM/5'', ''NTM/6'', ''NTM/7'', ''NTM/8'', ''NTM/9'', ''NTM/10'', ''NTM/11'',
            ''NTM/12'', ''NTM/13'', ''NTM/14'', ''NTM/15'', ''NTM/16'', ''NTM/17'', ''NTM/18'',
            ''NTM/19'', ''NTM/20'']
       \<and> parse_choice s build_options =
           (if 1 \<le> digits_value s \<and> digits_value s \<le> 22
            then Inr (case build_options ! nat (digits_value s - 1) of
                        (label, key, wkt) \<Rightarrow> (label, wkt))
            else Inl ValueError)
       \<and> build_options ! 6 = (''EUREF89 / NTM zone 5 (EPSG:5105)'', ''NTM/5'', snd (wkt_ntm 5))
       \<and> parse_choice ''7'' build_options
           = Inr (''EUREF89 / NTM zone 5 (EPSG:5105)'', snd (wkt_ntm 5))
       \<and> parse_choice ''6'' build_options
           = Inr (''WGS 84 / UTM zone 35N (EPSG:32635)'', snd (wkt_utm_wgs84 35))"
  using parse_choice_index[OF assms, of build_options] catalog_keys seventh_entry choice_7 choice_6
  by (simp add: catalog_length)

text \<open>The amended property at the tokens \<open>23\<close>, \<open>0\<close> and \<open>7\<close>.\<close>

theorem index_choice_witness:
  "list_all is_digit ''23''
   \<and> parse_choice ''23'' build_options = Inl ValueError
   \<and> list_all is_digit ''0''
   \<and> parse_choice ''0'' build_options = Inl ValueError
   \<and> list_all is_digit ''7''
   \<and> parse_choice ''7'' build_options
       = Inr (''EUREF89 / NTM zone 5 (EPSG:5105)'', snd (wkt_ntm 5))"
proof -
  have a: "''23'' \<noteq> []" "list_all is_digit ''23''" by (simp_all add: is_digit_def)
  have b: "''0'' \<noteq> []" "list_all is_digit ''0''" by (simp_all add: is_digit_def)
  have c: "''7'' \<noteq> []" "list_all is_digit ''7''" by (simp_all add: is_digit_def)
  show ?thesis
    using index_choice [OF a] index_choice [OF b] index_choice [OF c] a b c
    by (simp add: dv7)
qed

text \<open>
  The claim as it is worded names the WGS84/UTM35 entry as the seventh: the seventh key
  is \<open>NTM/5\<close>, and the token \<open>7\<close> does not return the WGS84/UTM35 entry.
\<close>

theorem index_choice_counterexample:
  "parse_choice ''7'' build_options
     = Inr (''EUREF89 / NTM zone 5 (EPSG:5105)'', snd (wkt_ntm 5))
   \<and> parse_choice ''7'' build_options
     \<noteq> Inr (''WGS 84 / UTM zone 35N (EPSG:32635)'', snd (wkt_utm_wgs84 35))
   \<and> option_keys build_options ! 6 = ''NTM/5''
   \<and> option_keys build_options ! 5 = ''WGS84/UTM35''"
  using choice_7 catalog_keys by simp

section \<open>Writing the sidecar files\<close>

lemma prj_cpg_differ: "prj_path a \<noteq> cpg_path b"
proof
  assume "prj_path a = cpg_path b"
  then have "last (prj_path a) = last (cpg_path b)" by simp
  then show False by (simp add: prj_path_def cpg_path_def)
qed

lemma write_sidecars_apply:
  "write_sidecars fs shp wkt p =
     (if p = cpg_path shp then Some CPG_CONTENT
      else if p = prj_path shp then Some (wkt @ [CHR 0x0A])
      else fs p)"
  by (simp add: write_sidecars_def)

lemma write_all_apply:
  "write_all_sidecars fs shps wkt p =
     (if p \<in> cpg_path ` set shps then Some CPG_CONTENT
      else if p \<in> prj_path ` set shps then Some (wkt @ [CHR 0x0A])
      else fs p)"
proof (induction shps arbitrary: fs)
  case Nil
  then show ?case by simp
next
  case (Cons shp shps)
  show ?case
    using prj_cpg_differ by (auto simp: Cons.IH write_sidecars_apply)
qed

text \<open>
  Claim C9, as amended. When the CRS step writes its sidecar files, every target
  shapefile gets a \<open>.prj\<close> file holding the WKT text followed by a newline and a
  \<open>.cpg\<close> file holding \<open>UTF-8\<close>, whether or not a \<open>.cpg\<close> file was already there; files
  at other paths stay as they were. It is \<open>write_cpg_if_missing\<close> of the
  drawing-to-GIS converter that writes \<open>UTF-8\<close> only where no \<open>.cpg\<close> file exists and
  leaves an existing one unchanged.
\<close>

theorem sidecars_written:
  shows "(\<forall>shp \<in> set shps.
            write_all_sidecars fs shps wkt (prj_path shp) = Some (wkt @ [CHR 0x0A])
          \<and> write_all_sidecars fs shps wkt (cpg_path shp) = Some ''UTF-8'')
       \<and> (\<forall>p. p \<notin> prj_path ` set shps \<and> p \<notin> cpg_path ` set shps
              \<longrightarrow> write_all_sidecars fs shps wkt p = fs p)
       \<and> (\<forall>old. fs (base @ ''.cpg'') = Some old
              \<longrightarrow> write_cpg_if_missing fs base (base @ ''.cpg'') = Some old)
       \<and> (fs (base @ ''.cpg'') = None
              \<longrightarrow> write_cpg_if_missing fs base (base @ ''.cpg'') = Some ''UTF-8'')
       \<and> (\<forall>p. p \<noteq> base @ ''.cpg'' \<longrightarrow> write_cpg_if_missing fs base p = fs p)"
  using prj_cpg_differ
  by (auto simp: write_all_apply CPG_CONTENT_def write_cpg_if_missing_def Let_def DBF_CPG_def)

lemma splitext_a: "splitext ''a.shp'' = (''a'', ''.shp'')"
  by (simp add: splitext_def rfind_def py_slice_def slice_bound_def Let_def)

text \<open>
  The amended property in a folder where \<open>a.cpg\<close> declares another encoding: the CRS
  step replaces it, \<open>write_cpg_if_missing\<close> keeps it and writes \<open>b.cpg\<close>, which is
  missing.
\<close>

theorem sidecars_written_witness:
  "write_all_sidecars latin_folder [''a.shp''] ''W'' ''a.prj'' = Some [CHR ''W'', CHR 0x0A]
   \<and> write_all_sidecars latin_folder [''a.shp''] ''W'' ''a.cpg'' = Some ''UTF-8''
   \<and> write_all_sidecars latin_folder [''a.shp''] ''W'' ''b.cpg'' = latin_folder ''b.cpg''
   \<and> latin_folder ''a.cpg'' = Some ''ISO-8859-1''
   \<and> write_cpg_if_missing latin_folder ''a'' ''a.cpg'' = Some ''ISO-8859-1''
   \<and> latin_folder ''b.cpg'' = None
   \<and> write_cpg_if_missing latin_folder ''b'' ''b.cpg'' = Some ''UTF-8''"
proof -
  have p: "prj_path ''a.shp'' = ''a.prj''" "cpg_path ''a.shp'' = ''a.cpg''"
    by (simp_all add: prj_path_def cpg_path_def splitext_a)
  have l: "latin_folder ''a.cpg'' = Some ''ISO-8859-1''" "latin_folder ''b.cpg'' = None"
    by (simp_all add: latin_folder_def)
  show ?thesis
    using sidecars_written [of "[''a.shp'']" latin_folder "''W''" "''a''"]
      sidecars_written [of "[''a.shp'']" latin_folder "''W''" "''b''"] l
    by (simp add: p)
qed

text \<open>
  The claim as it is worded, that an existing encoding file is left unchanged by the
  CRS step, fails in that folder: \<open>write_sidecars\<close> overwrites \<open>a.cpg\<close>.
\<close>

theorem sidecars_written_counterexample:
  "latin_folder ''a.cpg'' = Some ''ISO-8859-1''
   \<and> cpg_path ''a.shp'' = ''a.cpg''
   \<and> write_sidecars latin_folder ''a.shp'' ''W'' ''a.cpg'' = Some ''UTF-8''
   \<and> write_sidecars latin_folder ''a.shp'' ''W'' ''a.cpg'' \<noteq> latin_folder ''a.cpg''"
  by (simp add: write_sidecars_apply prj_path_def cpg_path_def splitext_a latin_folder_def
      CPG_CONTENT_def)

end
